theory Spec2Isabelle
  imports Main "HOL-Library.Word"
begin

section \<open>The recording hook \<open>useAudioRecorder\<close>\<close>

text \<open>
  The hook of \<^verbatim>\<open>src/hooks/useAudioRecorder.ts\<close> keeps four pieces of React state and
  hands out two operations, \<^verbatim>\<open>startRecording\<close> and \<^verbatim>\<open>stopRecording\<close>. Around the hook
  there is the JavaScript runtime: the registry of running intervals, the capture
  provider with the callbacks it was given, the file reads under way, the console and the
  caller's error handler. All of that is one record, passed through every function.

  Conventions of the embedding.
  \<^item> Every handler (an operation called by the user, a firing of an interval, a callback
    of the provider, the end of a file read) runs to completion; the state updates it
    makes are applied in order, the last write to a cell winning.
  \<^item> \<^verbatim>\<open>startRecording\<close>, \<^verbatim>\<open>stopRecording\<close> and \<^verbatim>\<open>_stopTimer\<close> are \<^verbatim>\<open>useCallback\<close> closures: the
    \<^verbatim>\<open>timerInterval\<close> they read is the constant of the render that made them, not the
    state at the time of the call. The models take that captured value as the argument
    \<open>captured\<close>. A call of the function returned by the latest render (events \<open>Start\<close>,
    \<open>Stop\<close>) has the current state as captured value, since the three closures are
    made again whenever \<^verbatim>\<open>timerInterval\<close> changes; a call of a function of a render that
    is no longer the latest, as the second of two calls made by one handler, has that
    render's value (events \<open>StartFrom\<close>, \<open>StopFrom\<close>).
  \<^item> The two callbacks given to \<^verbatim>\<open>captureAudio\<close> are closures created inside one call of
    \<^verbatim>\<open>startRecording\<close>. They keep the variables of the render that call came from, for as
    long as the provider holds them: its \<^verbatim>\<open>_stopTimer\<close> (and with it that render's
    \<^verbatim>\<open>timerInterval\<close>) and its \<^verbatim>\<open>onNotAllowedOrFound\<close>. The record \<open>capture_callbacks\<close>
    holds exactly these captured values.
  \<^item> \<^verbatim>\<open>recordingTime\<close> is a JavaScript number that only ever holds 0 or a count of
    firings; it is a natural number here (the count is exact in a double below \<open>2^53\<close>).
  \<^item> The provider \<^verbatim>\<open>navigator.device.capture\<close> is present, and the caller's error handler
    does not call back into the hook.
\<close>

subsection \<open>Data\<close>

type_synonym byte = "8 word"

type_synonym timer_id = nat

text \<open>A \<^verbatim>\<open>Blob\<close>: its MIME type and its bytes.\<close>

record blob =
  blob_type :: string
  blob_bytes :: "byte list"

text \<open>A file descriptor of the provider; the hook reads \<^verbatim>\<open>fullPath\<close> only.\<close>

record media_file =
  fullPath :: string

text \<open>The provider's error object; the hook reads \<^verbatim>\<open>message\<close> and passes the object on.\<close>

record capture_error =
  code :: int
  message :: string

datatype js_exception = TypeError | Thrown string

text \<open>
  The caller's handler \<^verbatim>\<open>onNotAllowedOrFound\<close>: called with the error, it returns
  (\<open>None\<close>) or throws (\<open>Some\<close> exception).
\<close>

type_synonym error_handler = "capture_error \<Rightarrow> js_exception option"

text \<open>The four \<^verbatim>\<open>useState\<close> cells, with the names of the source.\<close>

record hook_state =
  isRecording :: bool
  recordingTime :: nat
  timerInterval :: "timer_id option"
  recordingBlob :: "blob option"

text \<open>What the pair of callbacks made by one call of \<^verbatim>\<open>startRecording\<close> has captured.\<close>

record capture_callbacks =
  cb_timerInterval :: "timer_id option"
  cb_onNotAllowedOrFound :: "error_handler option"

record world =
  hook :: hook_state
  intervals :: "timer_id list"
  next_timer :: timer_id
  captures :: "capture_callbacks list"
  reads :: "string list"
  console :: "string list"
  handler_calls :: "capture_error list"

text \<open>
  \<open>intervals\<close> are the intervals running in the runtime (made by \<^verbatim>\<open>setInterval\<close>, not yet
  cleared); every one of them has the same callback, the increment of \<^verbatim>\<open>recordingTime\<close>.
  \<open>captures\<close> are the calls of \<^verbatim>\<open>captureAudio\<close> the provider has not answered yet,
  \<open>reads\<close> the paths whose \<^verbatim>\<open>fetch\<close> and \<^verbatim>\<open>readAsArrayBuffer\<close> have not ended yet,
  \<open>handler_calls\<close> the arguments the caller's handler was called with, in order.
\<close>

definition init :: world where
  "init = \<lparr>hook = \<lparr>isRecording = False, recordingTime = 0, timerInterval = None,
                    recordingBlob = None\<rparr>,
           intervals = [], next_timer = 1, captures = [], reads = [], console = [],
           handler_calls = []\<rparr>"

subsection \<open>State setters and runtime calls\<close>

definition setIsRecording :: "bool \<Rightarrow> world \<Rightarrow> world" where
  "setIsRecording b w = w\<lparr>hook := (hook w)\<lparr>isRecording := b\<rparr>\<rparr>"

text \<open>
  \<^verbatim>\<open>setRecordingTime\<close> with an updater function; the source's \<^verbatim>\<open>setRecordingTime(0)\<close> is
  the constant updater.
\<close>

definition setRecordingTime :: "(nat \<Rightarrow> nat) \<Rightarrow> world \<Rightarrow> world" where
  "setRecordingTime f w = w\<lparr>hook := (hook w)\<lparr>recordingTime := f (recordingTime (hook w))\<rparr>\<rparr>"

definition setTimerInterval :: "timer_id option \<Rightarrow> world \<Rightarrow> world" where
  "setTimerInterval t w = w\<lparr>hook := (hook w)\<lparr>timerInterval := t\<rparr>\<rparr>"

definition setRecordingBlob :: "blob option \<Rightarrow> world \<Rightarrow> world" where
  "setRecordingBlob b w = w\<lparr>hook := (hook w)\<lparr>recordingBlob := b\<rparr>\<rparr>"

definition setInterval :: "world \<Rightarrow> timer_id \<times> world" where
  "setInterval w =
     (next_timer w,
      w\<lparr>intervals := intervals w @ [next_timer w], next_timer := Suc (next_timer w)\<rparr>)"

definition clearInterval :: "timer_id \<Rightarrow> world \<Rightarrow> world" where
  "clearInterval t w = w\<lparr>intervals := removeAll t (intervals w)\<rparr>"

definition console_log :: "string \<Rightarrow> world \<Rightarrow> world" where
  "console_log s w = w\<lparr>console := console w @ [s]\<rparr>"

definition captureAudio :: "capture_callbacks \<Rightarrow> world \<Rightarrow> world" where
  "captureAudio cb w = w\<lparr>captures := captures w @ [cb]\<rparr>"

text \<open>\<^verbatim>\<open>fetch(path).then(... reader.readAsArrayBuffer(blob) ...)\<close>: a read is under way.\<close>

definition fetch_and_read :: "string \<Rightarrow> world \<Rightarrow> world" where
  "fetch_and_read path w = w\<lparr>reads := reads w @ [path]\<rparr>"

text \<open>
  \<^verbatim>\<open>new Uint8Array(reader.result)\<close>: the bytes of the buffer; of \<^verbatim>\<open>null\<close> (the read
  failed) an array of length 0.
\<close>

definition Uint8Array :: "byte list option \<Rightarrow> byte list" where
  "Uint8Array result = (case result of None \<Rightarrow> [] | Some bytes \<Rightarrow> bytes)"

subsection \<open>The hook's functions\<close>

text \<open>The callback of every interval: \<^verbatim>\<open>setRecordingTime((time) => time + 1)\<close>.\<close>

definition interval_callback :: "world \<Rightarrow> world" where
  "interval_callback w = setRecordingTime (\<lambda>time. time + 1) w"

text \<open>\<^verbatim>\<open>_startTimer\<close>.\<close>

definition startTimer :: "world \<Rightarrow> world" where
  "startTimer w = (case setInterval w of (interval, w') \<Rightarrow> setTimerInterval (Some interval) w')"

text \<open>
  \<^verbatim>\<open>_stopTimer\<close>, as the closure of a render whose \<^verbatim>\<open>timerInterval\<close> was \<open>captured\<close>:
  \<^verbatim>\<open>timerInterval != null && clearInterval(timerInterval); setTimerInterval(undefined)\<close>.
\<close>

definition stopTimer :: "timer_id option \<Rightarrow> world \<Rightarrow> world" where
  "stopTimer captured w =
     setTimerInterval None
       (case captured of None \<Rightarrow> w | Some t \<Rightarrow> clearInterval t w)"

text \<open>
  \<^verbatim>\<open>startRecording\<close>, as the closure of a render whose \<^verbatim>\<open>timerInterval\<close> was \<open>captured\<close>
  and whose handler was \<open>h\<close>. The guard reads the captured value. The callbacks handed to
  the provider keep this render's variables, its \<^verbatim>\<open>_stopTimer\<close> among them.
\<close>

definition startRecording :: "timer_id option \<Rightarrow> error_handler option \<Rightarrow> world \<Rightarrow> world" where
  "startRecording captured h w =
     (if captured \<noteq> None then w
      else startTimer
             (setIsRecording True
               (captureAudio \<lparr>cb_timerInterval = captured, cb_onNotAllowedOrFound = h\<rparr> w)))"

text \<open>
  \<^verbatim>\<open>stopRecording\<close>, as the closure of a render whose \<^verbatim>\<open>timerInterval\<close> was \<open>captured\<close>;
  the \<^verbatim>\<open>_stopTimer\<close> it calls is the one of the same render.
\<close>

definition stopRecording :: "timer_id option \<Rightarrow> world \<Rightarrow> world" where
  "stopRecording captured w =
     setIsRecording False
       (setRecordingTime (\<lambda>_. 0)
         (stopTimer captured w))"

text \<open>
  The success callback, called by the provider with its files. \<^verbatim>\<open>files[0]\<close> of an empty
  array is \<^verbatim>\<open>undefined\<close>, and \<^verbatim>\<open>file.fullPath\<close> then throws before anything else happens.
  A thrown exception comes with the world as it was when it was thrown.
\<close>

definition captureSuccess ::
  "capture_callbacks \<Rightarrow> media_file list \<Rightarrow> world \<Rightarrow> js_exception \<times> world + world" where
  "captureSuccess cb files w =
     (case files of
        [] \<Rightarrow> Inl (TypeError, w)
      | file # _ \<Rightarrow>
          Inr (setRecordingTime (\<lambda>_. 0)
                (stopTimer (cb_timerInterval cb)
                  (setIsRecording False
                    (fetch_and_read (fullPath file) w)))))"

text \<open>\<^verbatim>\<open>reader.onloadend\<close>, with \<^verbatim>\<open>reader.result\<close>.\<close>

definition onloadend :: "byte list option \<Rightarrow> world \<Rightarrow> world" where
  "onloadend result w =
     setRecordingBlob (Some \<lparr>blob_type = ''audio/wav'', blob_bytes = Uint8Array result\<rparr>) w"

text \<open>
  The failure callback: \<^verbatim>\<open>console.log(err.message); onNotAllowedOrFound?.(err)\<close>.
\<close>

definition captureError ::
  "capture_callbacks \<Rightarrow> capture_error \<Rightarrow> world \<Rightarrow> js_exception \<times> world + world" where
  "captureError cb err w =
     (let w1 = console_log (message err) w in
      case cb_onNotAllowedOrFound cb of
        None \<Rightarrow> Inr w1
      | Some handler \<Rightarrow>
          (let w2 = w1\<lparr>handler_calls := handler_calls w1 @ [err]\<rparr> in
           case handler err of None \<Rightarrow> Inr w2 | Some e \<Rightarrow> Inl (e, w2)))"

subsection \<open>Executions\<close>

text \<open>
  What can happen to a session: the user calls an operation (of the latest render, or of
  a render whose \<^verbatim>\<open>timerInterval\<close> is given), a running interval fires, the provider
  answers one of the captures it holds, a read under way ends. An event that
  cannot happen in a world (no such interval, capture or read) gives \<open>None\<close>. An exception
  that leaves a callback goes to the runtime; the session goes on from the world it left.
\<close>

datatype event =
    Start
  | Stop
  | StartFrom "timer_id option"
  | StopFrom "timer_id option"
  | Tick timer_id
  | Success nat "media_file list"
  | Failure nat capture_error
  | Loadend nat "byte list option"

definition drop_nth :: "nat \<Rightarrow> 'a list \<Rightarrow> 'a list" where
  "drop_nth i xs = take i xs @ drop (Suc i) xs"

definition world_after :: "js_exception \<times> world + world \<Rightarrow> world" where
  "world_after r = (case r of Inl (e, w) \<Rightarrow> w | Inr w \<Rightarrow> w)"

fun fire :: "error_handler option \<Rightarrow> event \<Rightarrow> world \<Rightarrow> world option" where
  "fire h Start w = Some (startRecording (timerInterval (hook w)) h w)"
| "fire h Stop w = Some (stopRecording (timerInterval (hook w)) w)"
| "fire h (StartFrom captured) w = Some (startRecording captured h w)"
| "fire h (StopFrom captured) w = Some (stopRecording captured w)"
| "fire h (Tick t) w = (if t \<in> set (intervals w) then Some (interval_callback w) else None)"
| "fire h (Success i files) w =
     (if i < length (captures w)
      then Some (world_after
                  (captureSuccess (captures w ! i) files
                     (w\<lparr>captures := drop_nth i (captures w)\<rparr>)))
      else None)"
| "fire h (Failure i err) w =
     (if i < length (captures w)
      then Some (world_after
                  (captureError (captures w ! i) err
                     (w\<lparr>captures := drop_nth i (captures w)\<rparr>)))
      else None)"
| "fire h (Loadend i result) w =
     (if i < length (reads w)
      then Some (onloadend result (w\<lparr>reads := drop_nth i (reads w)\<rparr>))
      else None)"

fun run :: "error_handler option \<Rightarrow> event list \<Rightarrow> world \<Rightarrow> world option" where
  "run h [] w = Some w"
| "run h (e # es) w = (case fire h e w of None \<Rightarrow> None | Some w' \<Rightarrow> run h es w')"

text \<open>
  One second of (simulated) time: every running interval fires once.
\<close>

definition advance_1000ms :: "world \<Rightarrow> world" where
  "advance_1000ms w = fold (\<lambda>t. interval_callback) (intervals w) w"

subsection \<open>Predicates on events and worlds\<close>

fun is_Loadend :: "event \<Rightarrow> bool" where
  "is_Loadend (Loadend i r) = True"
| "is_Loadend e = False"

fun is_Success :: "event \<Rightarrow> bool" where
  "is_Success (Success i files) = True"
| "is_Success e = False"


text \<open>A call of a function of a render that need not be the latest.\<close>

fun is_stale :: "event \<Rightarrow> bool" where
  "is_stale (StartFrom captured) = True"
| "is_stale (StopFrom captured) = True"
| "is_stale e = False"

text \<open>
  The hook knows every running interval: the only interval running is the one whose
  handle is in \<^verbatim>\<open>timerInterval\<close>, and the counter is 0 when there is none.
\<close>

definition tracked :: "world \<Rightarrow> bool" where
  "tracked w \<longleftrightarrow>
     intervals w = (case timerInterval (hook w) of None \<Rightarrow> [] | Some t \<Rightarrow> [t])
     \<and> (timerInterval (hook w) = None \<longrightarrow> recordingTime (hook w) = 0)"

section \<open>What each function does to the world\<close>

lemmas setter_defs =
  setIsRecording_def setRecordingTime_def setTimerInterval_def setRecordingBlob_def

lemmas runtime_defs =
  setInterval_def clearInterval_def console_log_def captureAudio_def fetch_and_read_def

lemma interval_callback_increments:
  "interval_callback w = w\<lparr>hook := (hook w)\<lparr>recordingTime := recordingTime (hook w) + 1\<rparr>\<rparr>"
  by (simp add: interval_callback_def setRecordingTime_def)

lemma startRecording_guarded:
  "startRecording (Some t) h w = w"
  by (simp add: startRecording_def)

lemma startRecording_idle:
  "startRecording None h w =
     w\<lparr>hook := (hook w)\<lparr>isRecording := True, timerInterval := Some (next_timer w)\<rparr>,
       intervals := intervals w @ [next_timer w],
       next_timer := Suc (next_timer w),
       captures := captures w @ [\<lparr>cb_timerInterval = None, cb_onNotAllowedOrFound = h\<rparr>]\<rparr>"
  by (simp add: startRecording_def startTimer_def setter_defs runtime_defs)

lemma stopRecording_eq:
  "stopRecording captured w =
     w\<lparr>hook := (hook w)\<lparr>isRecording := False, recordingTime := 0, timerInterval := None\<rparr>,
       intervals := (case captured of None \<Rightarrow> intervals w
                     | Some t \<Rightarrow> removeAll t (intervals w))\<rparr>"
  by (simp add: stopRecording_def stopTimer_def setter_defs runtime_defs split: option.splits)

lemma captureSuccess_eq:
  "captureSuccess cb (file # rest) w =
     Inr (w\<lparr>hook := (hook w)\<lparr>isRecording := False, recordingTime := 0, timerInterval := None\<rparr>,
            intervals := (case cb_timerInterval cb of None \<Rightarrow> intervals w
                          | Some t \<Rightarrow> removeAll t (intervals w)),
            reads := reads w @ [fullPath file]\<rparr>)"
  by (simp add: captureSuccess_def stopTimer_def setter_defs runtime_defs split: option.splits)

lemma onloadend_eq:
  "onloadend result w =
     w\<lparr>hook := (hook w)\<lparr>recordingBlob :=
         Some \<lparr>blob_type = ''audio/wav'', blob_bytes = Uint8Array result\<rparr>\<rparr>\<rparr>"
  by (simp add: onloadend_def setRecordingBlob_def)

lemma captureError_hook:
  "hook (world_after (captureError cb err w)) = hook w"
  by (simp add: captureError_def console_log_def world_after_def Let_def split: option.splits)

lemma captureError_intervals:
  "intervals (world_after (captureError cb err w)) = intervals w"
  by (simp add: captureError_def console_log_def world_after_def Let_def split: option.splits)

lemma captureError_captures:
  "captures (world_after (captureError cb err w)) = captures w"
  by (simp add: captureError_def console_log_def world_after_def Let_def split: option.splits)


text \<open>
  The world of a session in which \<^verbatim>\<open>startRecording\<close> of the first render was called once,
  without a handler.
\<close>

lemma started_world:
  "startRecording None None init =
     \<lparr>hook = \<lparr>isRecording = True, recordingTime = 0, timerInterval = Some 1,
              recordingBlob = None\<rparr>,
      intervals = [1], next_timer = 2,
      captures = [\<lparr>cb_timerInterval = None, cb_onNotAllowedOrFound = None\<rparr>],
      reads = [], console = [], handler_calls = []\<rparr>"
  by (simp add: init_def startRecording_idle)

section \<open>Executions and what they preserve\<close>

lemma startRecording_blob:
  "recordingBlob (hook (startRecording captured h w)) = recordingBlob (hook w)"
  by (cases captured) (simp_all add: startRecording_idle startRecording_guarded)

lemma captureSuccess_blob:
  "recordingBlob (hook (world_after (captureSuccess cb files w))) = recordingBlob (hook w)"
proof (cases files)
  case Nil
  then show ?thesis by (simp add: captureSuccess_def world_after_def)
next
  case (Cons f rest)
  then show ?thesis by (simp add: captureSuccess_eq world_after_def)
qed

lemma fire_blob:
  assumes "fire h e w = Some w'"
  shows "recordingBlob (hook w') \<noteq> None \<longleftrightarrow> recordingBlob (hook w) \<noteq> None \<or> is_Loadend e"
proof (cases e)
  case Start
  with assms show ?thesis by (auto simp: startRecording_blob)
next
  case Stop
  with assms show ?thesis by (auto simp: stopRecording_eq)
next
  case (StartFrom captured)
  with assms show ?thesis by (auto simp: startRecording_blob)
next
  case (StopFrom captured)
  with assms show ?thesis by (auto simp: stopRecording_eq)
next
  case (Tick t)
  with assms show ?thesis by (auto simp: interval_callback_increments split: if_splits)
next
  case (Success i files)
  with assms show ?thesis by (auto simp: captureSuccess_blob split: if_splits)
next
  case (Failure i err)
  with assms show ?thesis by (auto simp: captureError_hook split: if_splits)
next
  case (Loadend i r)
  with assms show ?thesis by (auto simp: onloadend_eq split: if_splits)
qed

lemma run_blob:
  "run h es w = Some w' \<Longrightarrow>
   recordingBlob (hook w') \<noteq> None
     \<longleftrightarrow> recordingBlob (hook w) \<noteq> None \<or> (\<exists>e\<in>set es. is_Loadend e)"
proof (induction es arbitrary: w)
  case Nil
  then show ?case by simp
next
  case (Cons e es)
  from Cons.prems obtain w1 where f: "fire h e w = Some w1" and r: "run h es w1 = Some w'"
    by (auto split: option.splits)
  from Cons.IH [OF r] fire_blob [OF f] show ?case by auto
qed

text \<open>
  As long as no success callback has run and every operation called is the one of the
  latest render, the hook knows every running interval: \<^verbatim>\<open>startRecording\<close> and
  \<^verbatim>\<open>stopRecording\<close> create and clear the one interval whose handle is in the state.
\<close>

lemma fire_tracked:
  assumes "fire h e w = Some w'" and "\<not> is_Success e" and "\<not> is_stale e" and "tracked w"
  shows "tracked w'"
proof (cases e)
  case Start
  show ?thesis
  proof (cases "timerInterval (hook w)")
    case None
    with assms Start show ?thesis by (auto simp: tracked_def startRecording_idle)
  next
    case (Some t)
    with assms Start show ?thesis by (auto simp: startRecording_guarded)
  qed
next
  case Stop
  with assms show ?thesis by (auto simp: tracked_def stopRecording_eq split: option.splits)
next
  case (StartFrom captured)
  with assms show ?thesis by simp
next
  case (StopFrom captured)
  with assms show ?thesis by simp
next
  case (Tick t)
  with assms show ?thesis
    by (auto simp: tracked_def interval_callback_increments split: if_splits option.splits)
next
  case (Success i files)
  with assms show ?thesis by simp
next
  case (Failure i err)
  with assms show ?thesis
    by (auto simp: tracked_def captureError_hook captureError_intervals split: if_splits)
next
  case (Loadend i r)
  with assms show ?thesis by (auto simp: tracked_def onloadend_eq split: if_splits)
qed

lemma run_tracked:
  "run h es w = Some w' \<Longrightarrow> \<forall>e\<in>set es. \<not> is_Success e \<and> \<not> is_stale e \<Longrightarrow> tracked w
   \<Longrightarrow> tracked w'"
proof (induction es arbitrary: w)
  case Nil
  then show ?case by simp
next
  case (Cons e es)
  from Cons.prems(1) obtain w1 where f: "fire h e w = Some w1" and r: "run h es w1 = Some w'"
    by (auto split: option.splits)
  from fire_tracked [OF f] Cons.prems have "tracked w1" by simp
  with Cons.IH [OF r] Cons.prems(2) show ?case by simp
qed

lemma tracked_init: "tracked init"
  by (simp add: tracked_def init_def)

lemma tracked_without_success:
  "run h es init = Some w \<Longrightarrow> \<forall>e\<in>set es. \<not> is_Success e \<and> \<not> is_stale e \<Longrightarrow> tracked w"
  using run_tracked tracked_init by blast










section \<open>The claims\<close>

text \<open>
  Claim C1. Whenever the provider calls the success callback of a capture it holds, with
  at least one file, the callback returns with \<open>isRecording\<close> false and \<open>recordingTime\<close> 0 and
  has started the read of the first file's path; when that read ends with the bytes read,
  \<open>recordingBlob\<close> is a blob of type \<open>audio/wav\<close> with exactly these bytes.
\<close>

theorem success_yields_wav_blob:
  assumes "i < length (captures w)"
  shows "\<exists>w1 w2. fire h (Success i (f # rest)) w = Some w1
           \<and> isRecording (hook w1) = False \<and> recordingTime (hook w1) = 0
           \<and> reads w1 = reads w @ [fullPath f]
           \<and> fire h (Loadend (length (reads w)) (Some bytes)) w1 = Some w2
           \<and> recordingBlob (hook w2) = Some \<lparr>blob_type = ''audio/wav'', blob_bytes = bytes\<rparr>"
  using assms
  by (simp add: captureSuccess_eq onloadend_eq world_after_def Uint8Array_def)

theorem success_yields_wav_blob_witness:
  "(0::nat) < length (captures (startRecording None None init))
   \<and> (\<exists>w1 w2. fire None (Success 0 [\<lparr>fullPath = ''/rec.wav''\<rparr>]) (startRecording None None init)
                 = Some w1
        \<and> isRecording (hook w1) = False \<and> recordingTime (hook w1) = 0
        \<and> reads w1 = reads (startRecording None None init) @ [fullPath \<lparr>fullPath = ''/rec.wav''\<rparr>]
        \<and> fire None (Loadend (length (reads (startRecording None None init)))
                      (Some [82, 73, 70, 70])) w1 = Some w2
        \<and> recordingBlob (hook w2)
            = Some \<lparr>blob_type = ''audio/wav'', blob_bytes = [82, 73, 70, 70]\<rparr>)"
proof -
  have c: "(0::nat) < length (captures (startRecording None None init))"
    by (simp add: started_world)
  from c success_yields_wav_blob [OF c, where h = None and f = "\<lparr>fullPath = ''/rec.wav''\<rparr>"
      and rest = "[]" and bytes = "[82, 73, 70, 70]"]
  show ?thesis by (rule conjI)
qed

text \<open>
  Claim C2 (start from a state whose timer handle is empty leaves \<open>recordingTime\<close> at 0,
  so that the counter is 0 at every transition into recording). The code at the session
  start, provider success, one firing, start: the success callback calls the \<^verbatim>\<open>_stopTimer\<close>
  of the render that \<^verbatim>\<open>startRecording\<close> was called from, whose \<^verbatim>\<open>timerInterval\<close> is empty, so
  interval 1 is not cleared and fires on; the second start then enters recording with
  \<open>recordingTime = 1\<close>.
\<close>

theorem start_after_completion_nonzero_time:
  "map_option hook
     (run None [Start, Success 0 [\<lparr>fullPath = ''/rec.wav''\<rparr>], Tick 1, Start] init)
   = Some \<lparr>isRecording = True, recordingTime = 1, timerInterval = Some 2,
           recordingBlob = None\<rparr>"
  by (simp add: init_def startRecording_idle captureSuccess_eq world_after_def drop_nth_def
      interval_callback_increments)

text \<open>
  Claim C3 (at most one timer is active in every reachable state; start with a timer
  handle in the state is a no-op). The guard is there (\<open>startRecording_guarded\<close>), but the
  code at the session start, provider success, start has two intervals running: the
  success callback empties the handle without clearing interval 1, and the guard of the
  second start lets it create interval 2.
\<close>

theorem second_timer_after_completion:
  "map_option intervals
     (run None [Start, Success 0 [\<lparr>fullPath = ''/rec.wav''\<rparr>], Start] init) = Some [1, 2]"
  by (simp add: init_def startRecording_idle captureSuccess_eq world_after_def drop_nth_def)

text \<open>
  Claim C4 (in every state, \<open>stopRecording\<close> clears the active timer and leaves
  \<open>recordingTime\<close> 0 and \<open>isRecording\<close> false). \<open>stopRecording\<close> clears the interval its
  render's \<^verbatim>\<open>timerInterval\<close> names and no other. The code at the session start, provider
  success, stop: the success callback has emptied the handle without clearing interval 1,
  so the stop clears nothing, interval 1 is still running after it, and its next firing
  takes \<open>recordingTime\<close> from 0 to 1. The same happens when start and stop are called from
  one render: that render's \<^verbatim>\<open>timerInterval\<close> is empty, and interval 1 survives the stop.
\<close>

theorem stop_leaves_interval_running:
  "map_option intervals (run None [Start, Success 0 [\<lparr>fullPath = ''/rec.wav''\<rparr>], Stop] init) = Some [1]
   \<and> map_option hook (run None [Start, Success 0 [\<lparr>fullPath = ''/rec.wav''\<rparr>], Stop, Tick 1] init)
     = Some \<lparr>isRecording = False, recordingTime = 1, timerInterval = None,
             recordingBlob = None\<rparr>
   \<and> map_option intervals (run None [Start, StopFrom None] init) = Some [1]"
  by (simp add: init_def startRecording_idle stopRecording_eq captureSuccess_eq world_after_def
      drop_nth_def interval_callback_increments)

text \<open>
  Claim C5 (while recording, \<open>recordingTime\<close> grows by exactly 1 per second, one firing of
  the one timer). Every firing adds exactly 1 (\<open>interval_callback_increments\<close>), but the
  code at the session start, provider success, start is recording with two intervals
  running, the one the success callback did not clear and the new one: one second later
  \<open>recordingTime\<close> has gone from 0 to 2.
\<close>

theorem two_increments_per_second:
  "map_option hook
     (run None [Start, Success 0 [\<lparr>fullPath = ''/rec.wav''\<rparr>], Start] init)
   = Some \<lparr>isRecording = True, recordingTime = 0, timerInterval = Some 2,
           recordingBlob = None\<rparr>
   \<and> map_option (hook \<circ> advance_1000ms)
       (run None [Start, Success 0 [\<lparr>fullPath = ''/rec.wav''\<rparr>], Start] init)
   = Some \<lparr>isRecording = True, recordingTime = 2, timerInterval = Some 2,
           recordingBlob = None\<rparr>"
  by (simp add: init_def startRecording_idle captureSuccess_eq world_after_def drop_nth_def
      interval_callback_increments advance_1000ms_def)

text \<open>
  The claim that \<open>recordingBlob\<close> is undefined in every reachable state that is recording
  fails: nothing clears the blob of an earlier recording, so a start after a completed
  read is recording with the blob defined.
\<close>

theorem artifact_defined_while_recording:
  "map_option hook
     (run None [Start, Success 0 [\<lparr>fullPath = ''/rec.wav''\<rparr>], Loadend 0 (Some [82, 73]),
                Start] init)
   = Some \<lparr>isRecording = True, recordingTime = 0, timerInterval = Some 2,
           recordingBlob = Some \<lparr>blob_type = ''audio/wav'', blob_bytes = [82, 73]\<rparr>\<rparr>"
  by (simp add: init_def startRecording_idle captureSuccess_eq onloadend_eq world_after_def
      drop_nth_def Uint8Array_def)

text \<open>
  Claim C6, amended. In every reachable state, \<open>recordingBlob\<close> is defined exactly when a
  file read started by a success callback of the provider has ended earlier in the
  session: no other event defines it, and none clears it.
\<close>

theorem artifact_defined_iff_read_completed:
  assumes "run h es init = Some w"
  shows "recordingBlob (hook w) \<noteq> None \<longleftrightarrow> (\<exists>e\<in>set es. is_Loadend e)"
  using run_blob [OF assms] by (simp add: init_def)

theorem artifact_defined_iff_read_completed_witness:
  "run None [Start, Stop, Start, Tick 2] init
     = Some \<lparr>hook = \<lparr>isRecording = True, recordingTime = 1, timerInterval = Some 2,
                     recordingBlob = None\<rparr>,
             intervals = [2], next_timer = 3,
             captures = [\<lparr>cb_timerInterval = None, cb_onNotAllowedOrFound = None\<rparr>,
                         \<lparr>cb_timerInterval = None, cb_onNotAllowedOrFound = None\<rparr>],
             reads = [], console = [], handler_calls = []\<rparr>
   \<and> \<not> (\<exists>e\<in>set [Start, Stop, Start, Tick 2]. is_Loadend e)
   \<and> run None [Start, Success 0 [\<lparr>fullPath = ''/rec.wav''\<rparr>], Loadend 0 (Some [82, 73])] init
     = Some \<lparr>hook = \<lparr>isRecording = False, recordingTime = 0, timerInterval = None,
                     recordingBlob = Some \<lparr>blob_type = ''audio/wav'', blob_bytes = [82, 73]\<rparr>\<rparr>,
             intervals = [1], next_timer = 2, captures = [], reads = [], console = [],
             handler_calls = []\<rparr>
   \<and> (\<exists>e\<in>set [Start, Success 0 [\<lparr>fullPath = ''/rec.wav''\<rparr>], Loadend 0 (Some [82, 73])].
         is_Loadend e)"
proof -
  have a: "run None [Start, Stop, Start, Tick 2] init
     = Some \<lparr>hook = \<lparr>isRecording = True, recordingTime = 1, timerInterval = Some 2,
                     recordingBlob = None\<rparr>,
             intervals = [2], next_timer = 3,
             captures = [\<lparr>cb_timerInterval = None, cb_onNotAllowedOrFound = None\<rparr>,
                         \<lparr>cb_timerInterval = None, cb_onNotAllowedOrFound = None\<rparr>],
             reads = [], console = [], handler_calls = []\<rparr>"
    by (simp add: init_def startRecording_idle stopRecording_eq interval_callback_increments)
  have b: "run None [Start, Success 0 [\<lparr>fullPath = ''/rec.wav''\<rparr>], Loadend 0 (Some [82, 73])] init
     = Some \<lparr>hook = \<lparr>isRecording = False, recordingTime = 0, timerInterval = None,
                     recordingBlob = Some \<lparr>blob_type = ''audio/wav'', blob_bytes = [82, 73]\<rparr>\<rparr>,
             intervals = [1], next_timer = 2, captures = [], reads = [], console = [],
             handler_calls = []\<rparr>"
    by (simp add: init_def startRecording_idle captureSuccess_eq onloadend_eq world_after_def
        drop_nth_def Uint8Array_def)
  from artifact_defined_iff_read_completed [OF a] artifact_defined_iff_read_completed [OF b] a b
  show ?thesis by simp
qed





text \<open>
  Claim C9. \<open>stopRecording\<close> leaves \<open>recordingBlob\<close> as it was: of the hook's state it
  writes the timer handle, \<open>recordingTime\<close> and \<open>isRecording\<close> and nothing else, and
  outside the hook's state it leaves the captures, the reads, the console and the
  handler's calls alone. This holds for the \<open>stopRecording\<close> of every render.
\<close>

theorem stopRecording_frame:
  "recordingBlob (hook (stopRecording captured w)) = recordingBlob (hook w)
   \<and> hook (stopRecording captured w)
       = (hook w)\<lparr>timerInterval := None, recordingTime := 0, isRecording := False\<rparr>
   \<and> captures (stopRecording captured w) = captures w
   \<and> reads (stopRecording captured w) = reads w
   \<and> console (stopRecording captured w) = console w
   \<and> handler_calls (stopRecording captured w) = handler_calls w"
  by (simp add: stopRecording_eq)

text \<open>
  Claim C10. When the hook was given no handler, the failure callback returns without
  throwing; it writes the error's message to the console and leaves the hook's state,
  the running intervals and the handler's calls as they were.
\<close>

theorem captureError_without_handler:
  assumes "cb_onNotAllowedOrFound cb = None"
  shows "captureError cb err w = Inr (w\<lparr>console := console w @ [message err]\<rparr>)
         \<and> hook (world_after (captureError cb err w)) = hook w
         \<and> intervals (world_after (captureError cb err w)) = intervals w
         \<and> handler_calls (world_after (captureError cb err w)) = handler_calls w"
  using assms
  by (simp add: captureError_def console_log_def world_after_def Let_def)

theorem captureError_without_handler_witness:
  "cb_onNotAllowedOrFound (captures (startRecording None None init) ! 0) = None
   \<and> captureError (captures (startRecording None None init) ! 0)
       \<lparr>code = 3, message = ''no microphone''\<rparr> init
     = Inr \<lparr>hook = \<lparr>isRecording = False, recordingTime = 0, timerInterval = None,
                    recordingBlob = None\<rparr>,
            intervals = [], next_timer = 1, captures = [], reads = [],
            console = [''no microphone''], handler_calls = []\<rparr>"
proof -
  have c: "cb_onNotAllowedOrFound (captures (startRecording None None init) ! 0) = None"
    by (simp add: started_world)
  from captureError_without_handler [OF c,
      where err = "\<lparr>code = 3, message = ''no microphone''\<rparr>" and w = init] c
  show ?thesis by (simp add: init_def)
qed

end
